theory Spec2Isabelle
  imports Main "HOL-Library.Word"
begin

unbundle bit_operations_syntax

section \<open>Battery charging policy of the embedded controller (battery.c)\<close>

text \<open>
  A shallow embedding of \<^verbatim>\<open>src/board/system76/common/battery.c\<close>. The file's
  globals (the nine telemetry words, the two threshold settings, the static flag
  \<^verbatim>\<open>charger_enabled\<close> and the function-local static \<^verbatim>\<open>should_charge\<close>)
  are the fields of one record that every function takes and returns. The register bus
  is an external collaborator: its answers are a parameter, and every transaction the
  code issues is appended, with the answer it got, to a trace kept in the state.
  The \<^verbatim>\<open>DEBUG\<close> output changes no state and is left out, as are
  \<^verbatim>\<open>battery_debug\<close>, which only prints, and \<^verbatim>\<open>battery_init\<close>, which hands the
  two settings to the configuration store. A C \<^verbatim>\<open>int\<close> status is an \<open>int\<close>: the code
  only compares it with zero and returns it.
\<close>

subsection \<open>Machine types and constants\<close>

type_synonym u8 = "8 word"
type_synonym u16 = "16 word"

definition BATTERY_ADDRESS :: u8 where
  "BATTERY_ADDRESS = 0x0B"

definition CHARGER_ADDRESS :: u8 where
  "CHARGER_ADDRESS = 0x09"

text \<open>ChargeOption0 flags, each \<^verbatim>\<open>(uint16_t)(bits << position)\<close>.\<close>

definition SBC_EN_LWPWR :: u16 where
  "SBC_EN_LWPWR = push_bit 15 1"

definition SBC_WDTMR_ADJ_175S :: u16 where
  "SBC_WDTMR_ADJ_175S = push_bit 13 3"

definition SBC_PWM_FREQ_800KHZ :: u16 where
  "SBC_PWM_FREQ_800KHZ = push_bit 8 1"

definition SBC_IDCHC_GAIN :: u16 where
  "SBC_IDCHC_GAIN = push_bit 3 1"

subsection \<open>The register bus\<close>

text \<open>
  One bus transaction with the answer it received. A write carries device address,
  command code, the 16-bit value and the returned status; a read carries device address,
  command code, the returned status and the word left in the destination afterwards.
  A status below zero is an error code.
\<close>

datatype bus_event =
    WriteEv u8 u8 u16 int
  | ReadEv u8 u8 int u16

text \<open>
  The bus transport (\<^verbatim>\<open>smbus_write\<close>, \<^verbatim>\<open>smbus_read\<close> of board/smbus.h) is
  outside this file. Its behaviour is a parameter: the status of a write and the status
  and stored word of a read may depend on everything that happened on the bus before,
  and a read also on the previous content of its destination.
\<close>

record smbus =
  write_result :: "bus_event list \<Rightarrow> u8 \<Rightarrow> u8 \<Rightarrow> u16 \<Rightarrow> int"
  read_result :: "bus_event list \<Rightarrow> u8 \<Rightarrow> u8 \<Rightarrow> u16 \<Rightarrow> int \<times> u16"

text \<open>
  The board's charger limits (\<^verbatim>\<open>CHARGER_CHARGE_CURRENT\<close>,
  \<^verbatim>\<open>CHARGER_CHARGE_VOLTAGE\<close>, \<^verbatim>\<open>CHARGER_INPUT_CURRENT\<close>) are macros of the
  board configuration; they are taken as parameters, as the 16-bit words passed to the bus.
\<close>

record board =
  CHARGER_CHARGE_CURRENT :: u16
  CHARGER_CHARGE_VOLTAGE :: u16
  CHARGER_INPUT_CURRENT :: u16

subsection \<open>Threshold settings\<close>

text \<open>
  A \<^verbatim>\<open>config_t\<close> as the two initialisers of battery.c fill it: identifier, the two
  strings, and the bounded value (its \<^verbatim>\<open>.value.value\<close> member is \<open>cur_value\<close> here).
  The \<^verbatim>\<open>set_callback\<close> member is \<^verbatim>\<open>NULL\<close> in both and is left out.
\<close>

record config_t =
  config_id :: string
  config_short :: string
  config_desc :: string
  min_value :: int
  max_value :: int
  cur_value :: int

definition battery_start_threshold_init :: config_t where
  "battery_start_threshold_init =
     \<lparr> config_id = ''BCTL'',
       config_short = ''Battery Charging Start Threshold'',
       config_desc = ''Relative capacity at which the battery will start charging'',
       min_value = 0,
       max_value = 99,
       cur_value = 0 \<rparr>"

definition battery_stop_threshold_init :: config_t where
  "battery_stop_threshold_init =
     \<lparr> config_id = ''BCTH'',
       config_short = ''Battery Charging Stop Threshold'',
       config_desc = ''Relative capacity at which the battery will stop charging'',
       min_value = 1,
       max_value = 100,
       cur_value = 100 \<rparr>"

text \<open>
  Modelled from the spec: \<^verbatim>\<open>config_get_value\<close> of common/config.h, whose body is not
  part of the sources at hand. The spec: getters always succeed and return the last
  validated value.
\<close>

definition config_get_value :: "config_t \<Rightarrow> int" where
  "config_get_value c = cur_value c"

text \<open>
  Modelled from the spec: \<^verbatim>\<open>config_set_value\<close> of common/config.h, whose body is not
  part of the sources at hand. The spec: the setter validates the value against the
  setting's bounds; an out-of-range value is rejected (the result is false) and the
  stored value is unchanged; otherwise the value is stored.
\<close>

definition config_set_value :: "config_t \<Rightarrow> int \<Rightarrow> bool \<times> config_t" where
  "config_set_value c v =
     (if v < min_value c \<or> max_value c < v then (False, c)
      else (True, c\<lparr>cur_value := v\<rparr>))"

subsection \<open>Program state\<close>

record state =
  battery_temp :: u16
  battery_voltage :: u16
  battery_current :: u16
  battery_charge :: u16
  battery_remaining_capacity :: u16
  battery_full_capacity :: u16
  battery_status :: u16
  battery_design_capacity :: u16
  battery_design_voltage :: u16
  battery_start_threshold :: config_t
  battery_stop_threshold :: config_t
  charger_enabled :: bool
  should_charge :: bool
  trace :: "bus_event list"

text \<open>The values the C initialisers give at start-up; nothing has been on the bus yet.\<close>

definition init_state :: state where
  "init_state =
     \<lparr> battery_temp = 0,
       battery_voltage = 0,
       battery_current = 0,
       battery_charge = 0,
       battery_remaining_capacity = 0,
       battery_full_capacity = 0,
       battery_status = 0,
       battery_design_capacity = 0,
       battery_design_voltage = 0,
       battery_start_threshold = battery_start_threshold_init,
       battery_stop_threshold = battery_stop_threshold_init,
       charger_enabled = False,
       should_charge = True,
       trace = [] \<rparr>"

subsection \<open>Bus access\<close>

definition smbus_write :: "smbus \<Rightarrow> u8 \<Rightarrow> u8 \<Rightarrow> u16 \<Rightarrow> state \<Rightarrow> int \<times> state" where
  "smbus_write bus a c v s =
     (let r = write_result bus (trace s) a c v
      in (r, s\<lparr>trace := trace s @ [WriteEv a c v r]\<rparr>))"

text \<open>
  \<^verbatim>\<open>smbus_read(a, c, &N)\<close>: the destination \<^verbatim>\<open>N\<close> is one of the telemetry globals,
  given by its selector and its update function.
\<close>

definition smbus_read ::
  "smbus \<Rightarrow> u8 \<Rightarrow> u8 \<Rightarrow> (state \<Rightarrow> u16) \<Rightarrow> ((u16 \<Rightarrow> u16) \<Rightarrow> state \<Rightarrow> state) \<Rightarrow> state \<Rightarrow> int \<times> state" where
  "smbus_read bus a c sel upd s =
     (case read_result bus (trace s) a c (sel s) of
        (r, v) \<Rightarrow> (r, upd (\<lambda>_. v) (s\<lparr>trace := trace s @ [ReadEv a c r v]\<rparr>)))"

subsection \<open>Threshold accessors\<close>

definition battery_get_start_threshold :: "state \<Rightarrow> int" where
  "battery_get_start_threshold s = config_get_value (battery_start_threshold s)"

definition battery_get_stop_threshold :: "state \<Rightarrow> int" where
  "battery_get_stop_threshold s = config_get_value (battery_stop_threshold s)"

definition battery_set_start_threshold :: "int \<Rightarrow> state \<Rightarrow> bool \<times> state" where
  "battery_set_start_threshold v s =
     (case config_set_value (battery_start_threshold s) v of
        (ok, c) \<Rightarrow> (ok, s\<lparr>battery_start_threshold := c\<rparr>))"

definition battery_set_stop_threshold :: "int \<Rightarrow> state \<Rightarrow> bool \<times> state" where
  "battery_set_stop_threshold v s =
     (case config_set_value (battery_stop_threshold s) v of
        (ok, c) \<Rightarrow> (ok, s\<lparr>battery_stop_threshold := c\<rparr>))"

subsection \<open>Charger register programming\<close>

text \<open>The two values written to charge option 0.\<close>

definition charge_option_disable :: u16 where
  "charge_option_disable =
     SBC_EN_LWPWR OR SBC_WDTMR_ADJ_175S OR SBC_PWM_FREQ_800KHZ OR SBC_IDCHC_GAIN"

definition charge_option_enable :: u16 where
  "charge_option_enable = SBC_EN_LWPWR OR SBC_PWM_FREQ_800KHZ OR SBC_IDCHC_GAIN"

definition battery_charger_disable :: "smbus \<Rightarrow> state \<Rightarrow> int \<times> state" where
  "battery_charger_disable bus s =
     (if \<not> charger_enabled s then (0, s)
      else
        case smbus_write bus CHARGER_ADDRESS 0x12 charge_option_disable s of (res0, s0) \<Rightarrow>
        case smbus_write bus CHARGER_ADDRESS 0x14 0 s0 of (res1, s1) \<Rightarrow>
        if res1 < 0 then (res1, s1)
        else
          case smbus_write bus CHARGER_ADDRESS 0x15 0 s1 of (res2, s2) \<Rightarrow>
          if res2 < 0 then (res2, s2)
          else
            case smbus_write bus CHARGER_ADDRESS 0x3F 0 s2 of (res3, s3) \<Rightarrow>
            if res3 < 0 then (res3, s3)
            else (0, s3\<lparr>charger_enabled := False\<rparr>))"

definition battery_charger_enable :: "smbus \<Rightarrow> board \<Rightarrow> state \<Rightarrow> int \<times> state" where
  "battery_charger_enable bus bd s =
     (if charger_enabled s then (0, s)
      else
        case battery_charger_disable bus s of (res0, s0) \<Rightarrow>
        if res0 < 0 then (res0, s0)
        else
          case smbus_write bus CHARGER_ADDRESS 0x14 (CHARGER_CHARGE_CURRENT bd) s0 of (res1, s1) \<Rightarrow>
          if res1 < 0 then (res1, s1)
          else
            case smbus_write bus CHARGER_ADDRESS 0x15 (CHARGER_CHARGE_VOLTAGE bd) s1 of (res2, s2) \<Rightarrow>
            if res2 < 0 then (res2, s2)
            else
              case smbus_write bus CHARGER_ADDRESS 0x3F (CHARGER_INPUT_CURRENT bd) s2 of (res3, s3) \<Rightarrow>
              if res3 < 0 then (res3, s3)
              else
                case smbus_write bus CHARGER_ADDRESS 0x12 charge_option_enable s3 of (res4, s4) \<Rightarrow>
                (0, s4\<lparr>charger_enabled := True\<rparr>))"

subsection \<open>Decision engine\<close>

text \<open>
  The \<^verbatim>\<open>if\<close>/\<^verbatim>\<open>else if\<close> chain of \<^verbatim>\<open>battery_charger_configure\<close> that assigns the
  static \<^verbatim>\<open>should_charge\<close>; when no branch is taken the variable keeps its value. The
  16-bit unsigned charge is compared with the threshold by value: C's integer conversions
  preserve the values of both operands for thresholds inside their bounds, and the
  validating setter keeps them there.
\<close>

definition update_should_charge :: "state \<Rightarrow> state" where
  "update_should_charge s =
     (if battery_get_stop_threshold s = 100 then s\<lparr>should_charge := True\<rparr>
      else if uint (battery_charge s) \<ge> battery_get_stop_threshold s then s\<lparr>should_charge := False\<rparr>
      else if battery_get_start_threshold s = 0 then s\<lparr>should_charge := True\<rparr>
      else if uint (battery_charge s) \<le> battery_get_start_threshold s then s\<lparr>should_charge := True\<rparr>
      else s)"

definition battery_charger_configure :: "smbus \<Rightarrow> board \<Rightarrow> state \<Rightarrow> int \<times> state" where
  "battery_charger_configure bus bd s =
     (let s1 = update_should_charge s
      in if should_charge s1 then battery_charger_enable bus bd s1
         else battery_charger_disable bus s1)"

subsection \<open>Telemetry\<close>

text \<open>
  The macro \<^verbatim>\<open>command(N, V)\<close> of \<^verbatim>\<open>battery_event\<close>: read command \<^verbatim>\<open>V\<close> of the
  battery into \<^verbatim>\<open>N\<close>, and set \<^verbatim>\<open>N\<close> to 0 when the read's status is negative.
\<close>

definition command ::
  "smbus \<Rightarrow> (state \<Rightarrow> u16) \<Rightarrow> ((u16 \<Rightarrow> u16) \<Rightarrow> state \<Rightarrow> state) \<Rightarrow> u8 \<Rightarrow> state \<Rightarrow> state" where
  "command bus sel upd V s =
     (case smbus_read bus BATTERY_ADDRESS V sel upd s of
        (res, s1) \<Rightarrow> if res < 0 then upd (\<lambda>_. 0) s1 else s1)"

definition battery_event :: "smbus \<Rightarrow> state \<Rightarrow> state" where
  "battery_event bus s =
     (let s = command bus battery_temp battery_temp_update 0x08 s;
          s = command bus battery_voltage battery_voltage_update 0x09 s;
          s = command bus battery_current battery_current_update 0x0A s;
          s = command bus battery_charge battery_charge_update 0x0D s;
          s = command bus battery_remaining_capacity battery_remaining_capacity_update 0x0F s;
          s = command bus battery_full_capacity battery_full_capacity_update 0x10 s;
          s = command bus battery_status battery_status_update 0x16 s;
          s = command bus battery_design_capacity battery_design_capacity_update 0x18 s;
          s = command bus battery_design_voltage battery_design_voltage_update 0x19 s
      in s)"

subsection \<open>The decision rule as the specification words it\<close>

datatype ChargeCommand = Charge | NoCharge

text \<open>
  The specification's rule list, first match wins: charge percentage \<open>c\<close>, start
  threshold \<open>st\<close>, stop threshold \<open>sp\<close>, previous decision \<open>d\<close>.
\<close>

definition evaluate_spec :: "int \<Rightarrow> int \<Rightarrow> int \<Rightarrow> ChargeCommand \<Rightarrow> ChargeCommand" where
  "evaluate_spec c st sp d =
     (if sp = 100 then Charge
      else if c \<ge> sp then NoCharge
      else if st = 0 then Charge
      else if c \<le> st then Charge
      else d)"

definition command_of :: "bool \<Rightarrow> ChargeCommand" where
  "command_of b = (if b then Charge else NoCharge)"

fun apply_spec :: "smbus \<Rightarrow> board \<Rightarrow> ChargeCommand \<Rightarrow> state \<Rightarrow> int \<times> state" where
  "apply_spec bus bd Charge s = battery_charger_enable bus bd s"
| "apply_spec bus bd NoCharge s = battery_charger_disable bus s"

subsection \<open>Observations on the bus trace\<close>

text \<open>
  A gating write is one whose status the code checks: the writes of charge current,
  charge voltage and input current, in both \<^verbatim>\<open>battery_charger_disable\<close> and
  \<^verbatim>\<open>battery_charger_enable\<close>.
\<close>

fun gating_write :: "bus_event \<Rightarrow> bool" where
  "gating_write (WriteEv a c v r) = (a = CHARGER_ADDRESS \<and> (c = 0x14 \<or> c = 0x15 \<or> c = 0x3F))"
| "gating_write (ReadEv a c r v) = False"

fun ev_status :: "bus_event \<Rightarrow> int" where
  "ev_status (WriteEv a c v r) = r"
| "ev_status (ReadEv a c r v) = r"

text \<open>A write of charge option 0 that has watchdog-timeout bits set.\<close>

fun watchdog_armed_write :: "bus_event \<Rightarrow> bool" where
  "watchdog_armed_write (WriteEv a c v r) =
     (a = CHARGER_ADDRESS \<and> c = 0x12 \<and> v AND SBC_WDTMR_ADJ_175S \<noteq> 0)"
| "watchdog_armed_write (ReadEv a c r v) = False"

text \<open>What a write asked for: device, command and value, without the answer.\<close>

fun write_request :: "bus_event \<Rightarrow> (u8 \<times> u8 \<times> u16) option" where
  "write_request (WriteEv a c v r) = Some (a, c, v)"
| "write_request (ReadEv a c r v) = None"

text \<open>What a telemetry field holds after its read: 0 when the status is negative.\<close>

definition fresh :: "int \<times> u16 \<Rightarrow> u16" where
  "fresh rv = (if fst rv < 0 then 0 else snd rv)"

subsection \<open>Sequences of calls\<close>

text \<open>
  The entry points that change state, as the controller's main loop may call them in any
  order, and the state after a list of calls.
\<close>

datatype api_call =
    Call_configure
  | Call_enable
  | Call_disable
  | Call_event
  | Call_set_start int
  | Call_set_stop int

fun step :: "smbus \<Rightarrow> board \<Rightarrow> api_call \<Rightarrow> state \<Rightarrow> state" where
  "step bus bd Call_configure s = snd (battery_charger_configure bus bd s)"
| "step bus bd Call_enable s = snd (battery_charger_enable bus bd s)"
| "step bus bd Call_disable s = snd (battery_charger_disable bus s)"
| "step bus bd Call_event s = battery_event bus s"
| "step bus bd (Call_set_start v) s = snd (battery_set_start_threshold v s)"
| "step bus bd (Call_set_stop v) s = snd (battery_set_stop_threshold v s)"

definition run :: "smbus \<Rightarrow> board \<Rightarrow> api_call list \<Rightarrow> state \<Rightarrow> state" where
  "run bus bd calls s = foldl (\<lambda>s c. step bus bd c s) s calls"

text \<open>Both settings have the bounds of their initialisers and a value inside them.\<close>

definition thresholds_ok :: "state \<Rightarrow> bool" where
  "thresholds_ok s =
     (min_value (battery_start_threshold s) = 0 \<and> max_value (battery_start_threshold s) = 99 \<and>
      min_value (battery_start_threshold s) \<le> cur_value (battery_start_threshold s) \<and>
      cur_value (battery_start_threshold s) \<le> max_value (battery_start_threshold s) \<and>
      min_value (battery_stop_threshold s) = 1 \<and> max_value (battery_stop_threshold s) = 100 \<and>
      min_value (battery_stop_threshold s) \<le> cur_value (battery_stop_threshold s) \<and>
      cur_value (battery_stop_threshold s) \<le> max_value (battery_stop_threshold s))"

text \<open>
  Evaluating the decision engine on a charge percentage: the telemetry word is set and
  \<^verbatim>\<open>battery_charger_configure\<close> runs.
\<close>

definition evaluate_at :: "smbus \<Rightarrow> board \<Rightarrow> u16 \<Rightarrow> state \<Rightarrow> state" where
  "evaluate_at bus bd c s = snd (battery_charger_configure bus bd (s\<lparr>battery_charge := c\<rparr>))"

text \<open>Start threshold 40, stop threshold 80, remembered decision "no charge".\<close>

definition hysteresis_start :: "state \<Rightarrow> state" where
  "hysteresis_start s =
     s\<lparr>battery_start_threshold := (battery_start_threshold s)\<lparr>cur_value := 40\<rparr>,
       battery_stop_threshold := (battery_stop_threshold s)\<lparr>cur_value := 80\<rparr>,
       should_charge := False\<rparr>"

subsection \<open>Sample buses and board\<close>

text \<open>
  A bus on which every transaction succeeds, and one on which every transaction with
  command code \<open>k\<close> fails with status \<open>-1\<close>; a successful read stores \<open>0x100\<close> plus the
  command code.
\<close>

definition bus_ok :: smbus where
  "bus_ok =
     \<lparr> write_result = (\<lambda>tr a c v. 0),
       read_result = (\<lambda>tr a c old. (0, 0x100 + ucast c)) \<rparr>"

definition bus_failing :: "u8 \<Rightarrow> smbus" where
  "bus_failing k =
     \<lparr> write_result = (\<lambda>tr a c v. if c = k then - 1 else 0),
       read_result = (\<lambda>tr a c old. if c = k then (- 1, old) else (0, 0x100 + ucast c)) \<rparr>"

definition board_example :: board where
  "board_example =
     \<lparr> CHARGER_CHARGE_CURRENT = 0x0600,
       CHARGER_CHARGE_VOLTAGE = 0x3390,
       CHARGER_INPUT_CURRENT = 0x0E00 \<rparr>"

section \<open>Verified properties\<close>

subsection \<open>Shared facts\<close>

lemmas flag_defs =
  SBC_EN_LWPWR_def SBC_WDTMR_ADJ_175S_def SBC_PWM_FREQ_800KHZ_def SBC_IDCHC_GAIN_def

lemma smbus_write_eq:
  "smbus_write bus a c v s =
     (write_result bus (trace s) a c v,
      s\<lparr>trace := trace s @ [WriteEv a c v (write_result bus (trace s) a c v)]\<rparr>)"
  by (simp add: smbus_write_def Let_def)

lemma disable_noop:
  "\<not> charger_enabled s \<Longrightarrow> battery_charger_disable bus s = (0, s)"
  by (simp add: battery_charger_disable_def)

lemma enable_noop:
  "charger_enabled s \<Longrightarrow> battery_charger_enable bus bd s = (0, s)"
  by (simp add: battery_charger_enable_def)

lemma charge_option_enable_unarmed: "charge_option_enable AND SBC_WDTMR_ADJ_175S = 0"
  by (simp add: charge_option_enable_def flag_defs)

lemma disable_should_charge:
  "should_charge (snd (battery_charger_disable bus s)) = should_charge s"
  by (simp add: battery_charger_disable_def smbus_write_eq)

lemma disable_thresholds:
  "battery_start_threshold (snd (battery_charger_disable bus s)) = battery_start_threshold s"
  "battery_stop_threshold (snd (battery_charger_disable bus s)) = battery_stop_threshold s"
  by (simp_all add: battery_charger_disable_def smbus_write_eq)

lemma enable_thresholds:
  "battery_start_threshold (snd (battery_charger_enable bus bd s)) = battery_start_threshold s"
  "battery_stop_threshold (snd (battery_charger_enable bus bd s)) = battery_stop_threshold s"
  by (simp_all add: battery_charger_enable_def battery_charger_disable_def smbus_write_eq)

lemma update_should_charge_frame:
  "battery_start_threshold (update_should_charge s) = battery_start_threshold s"
  "battery_stop_threshold (update_should_charge s) = battery_stop_threshold s"
  "charger_enabled (update_should_charge s) = charger_enabled s"
  "trace (update_should_charge s) = trace s"
  by (simp_all add: update_should_charge_def)

lemma configure_thresholds:
  "battery_start_threshold (snd (battery_charger_configure bus bd s)) = battery_start_threshold s"
  "battery_stop_threshold (snd (battery_charger_configure bus bd s)) = battery_stop_threshold s"
  by (simp_all add: battery_charger_configure_def Let_def enable_thresholds disable_thresholds
      update_should_charge_frame)

text \<open>
  The macro \<^verbatim>\<open>command\<close> touches its own field and the bus, whichever field it is given.
\<close>

lemma command_thresholds:
  assumes "\<And>f s. battery_start_threshold (upd f s) = battery_start_threshold s"
    and "\<And>f s. battery_stop_threshold (upd f s) = battery_stop_threshold s"
  shows "battery_start_threshold (command bus sel upd V s) = battery_start_threshold s"
    and "battery_stop_threshold (command bus sel upd V s) = battery_stop_threshold s"
  by (simp_all add: command_def smbus_read_def assms split: prod.splits)

lemma event_thresholds:
  "battery_start_threshold (battery_event bus s) = battery_start_threshold s"
  "battery_stop_threshold (battery_event bus s) = battery_stop_threshold s"
  by (simp_all add: battery_event_def Let_def command_thresholds)

lemma command_armed:
  assumes "\<And>f s. trace (upd f s) = trace s"
  shows "filter watchdog_armed_write (trace (command bus sel upd V s)) =
           filter watchdog_armed_write (trace s)"
  by (simp add: command_def smbus_read_def assms split: prod.splits)

lemma event_armed:
  "filter watchdog_armed_write (trace (battery_event bus s)) =
     filter watchdog_armed_write (trace s)"
  by (simp add: battery_event_def Let_def command_armed)

lemma run_snoc: "run bus bd (cs @ [c]) s = step bus bd c (run bus bd cs s)"
  by (simp add: run_def)

subsection \<open>Decision engine\<close>

text \<open>
  C1. For every charge percentage, start threshold, stop threshold and remembered
  decision, one call of \<^verbatim>\<open>battery_charger_configure\<close> takes the decision given by the
  first matching rule of the specification's list (stop = 100: Charge; charge \<open>\<ge>\<close> stop:
  NoCharge; start = 0: Charge; charge \<open>\<le>\<close> start: Charge; otherwise the previous
  decision), stores it as the remembered decision and changes nothing else before
  applying it: enable for Charge, disable for NoCharge.
\<close>

theorem configure_decision_rule:
  "battery_charger_configure bus bd
     (s\<lparr>battery_charge := c,
        battery_start_threshold := (battery_start_threshold s)\<lparr>cur_value := st\<rparr>,
        battery_stop_threshold := (battery_stop_threshold s)\<lparr>cur_value := sp\<rparr>,
        should_charge := d\<rparr>) =
   (let s0 = s\<lparr>battery_charge := c,
               battery_start_threshold := (battery_start_threshold s)\<lparr>cur_value := st\<rparr>,
               battery_stop_threshold := (battery_stop_threshold s)\<lparr>cur_value := sp\<rparr>,
               should_charge := d\<rparr>;
        next = evaluate_spec (uint c) st sp (command_of d)
    in apply_spec bus bd next (s0\<lparr>should_charge := (next = Charge)\<rparr>))"
  by (simp add: battery_charger_configure_def update_should_charge_def evaluate_spec_def
      command_of_def battery_get_start_threshold_def battery_get_stop_threshold_def
      config_get_value_def Let_def)

lemma configure_in_band:
  assumes "cur_value (battery_start_threshold s) = 40"
    and "cur_value (battery_stop_threshold s) = 80"
    and "\<not> should_charge s"
    and "40 < uint c" and "uint c < 80"
  shows "battery_charger_configure bus bd (s\<lparr>battery_charge := c\<rparr>)
           = battery_charger_disable bus (s\<lparr>battery_charge := c\<rparr>)"
  using assms
  by (simp add: battery_charger_configure_def update_should_charge_def
      battery_get_start_threshold_def battery_get_stop_threshold_def config_get_value_def)

lemma in_band_step:
  assumes "cur_value (battery_start_threshold s) = 40"
    and "cur_value (battery_stop_threshold s) = 80"
    and "\<not> should_charge s"
    and "40 < uint c" and "uint c < 80"
  shows "cur_value (battery_start_threshold (evaluate_at bus bd c s)) = 40"
    and "cur_value (battery_stop_threshold (evaluate_at bus bd c s)) = 80"
    and "\<not> should_charge (evaluate_at bus bd c s)"
    and "evaluate_at bus bd c s = snd (battery_charger_disable bus (s\<lparr>battery_charge := c\<rparr>))"
  using assms
  by (simp_all add: evaluate_at_def configure_in_band disable_should_charge disable_thresholds)

text \<open>
  C6. Hysteresis trace: with start threshold 40, stop threshold 80 and the remembered
  decision "no charge", evaluating the decision engine on the charge percentages 50, 60
  and 70 in turn leaves the remembered decision at "no charge" after every step, and each
  step applies \<^verbatim>\<open>battery_charger_disable\<close>. This holds from any state and for any bus.
\<close>

theorem hysteresis_trace:
  "(let s0 = hysteresis_start s;
        s1 = evaluate_at bus bd 50 s0;
        s2 = evaluate_at bus bd 60 s1;
        s3 = evaluate_at bus bd 70 s2
    in \<not> should_charge s1 \<and> \<not> should_charge s2 \<and> \<not> should_charge s3
       \<and> s1 = snd (battery_charger_disable bus (s0\<lparr>battery_charge := 50\<rparr>))
       \<and> s2 = snd (battery_charger_disable bus (s1\<lparr>battery_charge := 60\<rparr>))
       \<and> s3 = snd (battery_charger_disable bus (s2\<lparr>battery_charge := 70\<rparr>)))"
proof -
  define s0 where "s0 = hysteresis_start s"
  define s1 where "s1 = evaluate_at bus bd 50 s0"
  define s2 where "s2 = evaluate_at bus bd 60 s1"
  define s3 where "s3 = evaluate_at bus bd 70 s2"
  have p0: "cur_value (battery_start_threshold s0) = 40"
    "cur_value (battery_stop_threshold s0) = 80" "\<not> should_charge s0"
    by (simp_all add: s0_def hysteresis_start_def)
  have b: "40 < uint (50 :: u16)" "uint (50 :: u16) < 80" "40 < uint (60 :: u16)"
    "uint (60 :: u16) < 80" "40 < uint (70 :: u16)" "uint (70 :: u16) < 80"
    by simp_all
  note p1 = in_band_step [OF p0 b(1,2), of bus bd, folded s1_def]
  note p2 = in_band_step [OF p1(1,2,3) b(3,4), of bus bd, folded s2_def]
  note p3 = in_band_step [OF p2(1,2,3) b(5,6), of bus bd, folded s3_def]
  from p1 p2 p3 show ?thesis
    unfolding Let_def s0_def [symmetric] s1_def [symmetric] s2_def [symmetric] s3_def [symmetric]
    by simp
qed

subsection \<open>Charger register programming\<close>

text \<open>
  C2. With the hardware-state flag enabled, \<^verbatim>\<open>battery_charger_disable\<close> writes, in
  this order, charge option 0 (command 0x12) with the low-power, 175-second watchdog,
  800 kHz and discharge-gain flags, then 0 to charge current (0x14), to charge voltage
  (0x15) and to input current (0x3F). The status of the option write is not looked at;
  a negative status of a zero write is returned at once and the later writes are not
  issued; when the three zero writes succeed the flag becomes disabled and the result is 0.
\<close>

theorem disable_write_sequence:
  assumes "charger_enabled s"
  shows "battery_charger_disable bus s =
     (let t0 = trace s;
          r0 = write_result bus t0 0x09 0x12
                 (SBC_EN_LWPWR OR SBC_WDTMR_ADJ_175S OR SBC_PWM_FREQ_800KHZ OR SBC_IDCHC_GAIN);
          t1 = t0 @ [WriteEv 0x09 0x12
                 (SBC_EN_LWPWR OR SBC_WDTMR_ADJ_175S OR SBC_PWM_FREQ_800KHZ OR SBC_IDCHC_GAIN) r0];
          r1 = write_result bus t1 0x09 0x14 0;
          t2 = t1 @ [WriteEv 0x09 0x14 0 r1];
          r2 = write_result bus t2 0x09 0x15 0;
          t3 = t2 @ [WriteEv 0x09 0x15 0 r2];
          r3 = write_result bus t3 0x09 0x3F 0;
          t4 = t3 @ [WriteEv 0x09 0x3F 0 r3]
      in if r1 < 0 then (r1, s\<lparr>trace := t2\<rparr>)
         else if r2 < 0 then (r2, s\<lparr>trace := t3\<rparr>)
         else if r3 < 0 then (r3, s\<lparr>trace := t4\<rparr>)
         else (0, s\<lparr>trace := t4, charger_enabled := False\<rparr>))"
  using assms
  by (simp add: battery_charger_disable_def smbus_write_eq CHARGER_ADDRESS_def
      charge_option_disable_def Let_def)

theorem disable_write_sequence_witness:
  "battery_charger_disable (bus_failing 0x15) (init_state\<lparr>charger_enabled := True\<rparr>) =
     (- 1, init_state\<lparr>charger_enabled := True,
            trace := [WriteEv 0x09 0x12 0xE108 0, WriteEv 0x09 0x14 0 0, WriteEv 0x09 0x15 0 (- 1)]\<rparr>)"
  using disable_write_sequence [of "init_state\<lparr>charger_enabled := True\<rparr>" "bus_failing 0x15"]
  by (simp add: init_state_def bus_failing_def Let_def flag_defs)

text \<open>
  C3. With the hardware-state flag disabled, \<^verbatim>\<open>battery_charger_enable\<close> first calls
  \<^verbatim>\<open>battery_charger_disable\<close> and returns its status when that is negative; it then
  writes the board's charge current, charge voltage and input current, each negative
  status being returned at once, and last writes charge option 0 with the flags of
  disable minus the watchdog-timeout bits; at the end the flag is enabled and the result
  is 0.
\<close>

theorem enable_write_sequence:
  assumes "\<not> charger_enabled s"
  shows "battery_charger_enable bus bd s =
     (case battery_charger_disable bus s of
        (res, s0) \<Rightarrow>
          if res < 0 then (res, s0)
          else
            let t0 = trace s0;
                r1 = write_result bus t0 0x09 0x14 (CHARGER_CHARGE_CURRENT bd);
                t1 = t0 @ [WriteEv 0x09 0x14 (CHARGER_CHARGE_CURRENT bd) r1];
                r2 = write_result bus t1 0x09 0x15 (CHARGER_CHARGE_VOLTAGE bd);
                t2 = t1 @ [WriteEv 0x09 0x15 (CHARGER_CHARGE_VOLTAGE bd) r2];
                r3 = write_result bus t2 0x09 0x3F (CHARGER_INPUT_CURRENT bd);
                t3 = t2 @ [WriteEv 0x09 0x3F (CHARGER_INPUT_CURRENT bd) r3];
                opt = (SBC_EN_LWPWR OR SBC_WDTMR_ADJ_175S OR SBC_PWM_FREQ_800KHZ OR SBC_IDCHC_GAIN)
                        AND NOT SBC_WDTMR_ADJ_175S;
                r4 = write_result bus t3 0x09 0x12 opt;
                t4 = t3 @ [WriteEv 0x09 0x12 opt r4]
            in if r1 < 0 then (r1, s0\<lparr>trace := t1\<rparr>)
               else if r2 < 0 then (r2, s0\<lparr>trace := t2\<rparr>)
               else if r3 < 0 then (r3, s0\<lparr>trace := t3\<rparr>)
               else (0, s0\<lparr>trace := t4, charger_enabled := True\<rparr>))"
proof -
  have opt: "(SBC_EN_LWPWR OR SBC_WDTMR_ADJ_175S OR SBC_PWM_FREQ_800KHZ OR SBC_IDCHC_GAIN)
               AND NOT SBC_WDTMR_ADJ_175S = charge_option_enable"
    by (simp add: charge_option_enable_def SBC_EN_LWPWR_def SBC_WDTMR_ADJ_175S_def
        SBC_PWM_FREQ_800KHZ_def SBC_IDCHC_GAIN_def)
  show ?thesis
    unfolding opt using assms
    by (simp add: battery_charger_enable_def smbus_write_eq CHARGER_ADDRESS_def Let_def
        split: prod.splits)
qed

theorem enable_write_sequence_witness:
  "battery_charger_enable (bus_failing 0x3F) board_example init_state =
     (- 1, init_state\<lparr>trace := [WriteEv 0x09 0x14 0x0600 0, WriteEv 0x09 0x15 0x3390 0,
                                WriteEv 0x09 0x3F 0x0E00 (- 1)]\<rparr>)"
  using enable_write_sequence [of init_state "bus_failing 0x3F" board_example]
  by (simp add: init_state_def bus_failing_def board_example_def battery_charger_disable_def
      Let_def)

lemma disable_failure_shape:
  assumes "battery_charger_disable bus s = (r, s')"
  shows "\<exists>evs. trace s' = trace s @ evs \<and>
           (\<forall>i<length evs. gating_write (evs ! i) \<and> ev_status (evs ! i) < 0 \<longrightarrow>
              r = ev_status (evs ! i) \<and> Suc i = length evs \<and>
              charger_enabled s' = charger_enabled s \<and> s' = s\<lparr>trace := trace s'\<rparr>)"
proof (cases "charger_enabled s")
  case False
  with assms have "s' = s" by (simp add: battery_charger_disable_def)
  then have "trace s' = trace s @ []" by simp
  then show ?thesis by (intro exI [of _ "[]"]) simp
next
  case True
  with assms show ?thesis
    by (auto simp: battery_charger_disable_def smbus_write_eq less_Suc_eq
        split: if_splits)
qed

lemma enable_failure_shape:
  assumes "battery_charger_enable bus bd s = (r, s')"
  shows "\<exists>evs. trace s' = trace s @ evs \<and>
           (\<forall>i<length evs. gating_write (evs ! i) \<and> ev_status (evs ! i) < 0 \<longrightarrow>
              r = ev_status (evs ! i) \<and> Suc i = length evs \<and>
              charger_enabled s' = charger_enabled s \<and> s' = s\<lparr>trace := trace s'\<rparr>)"
proof (cases "charger_enabled s")
  case True
  with assms have "s' = s" by (simp add: battery_charger_enable_def)
  then show ?thesis by (intro exI [of _ "[]"]) simp
next
  case False
  with assms show ?thesis
    by (auto simp: battery_charger_enable_def disable_noop smbus_write_eq less_Suc_eq
        CHARGER_ADDRESS_def split: if_splits)
qed

text \<open>
  C4. Whenever a gating write inside \<^verbatim>\<open>battery_charger_disable\<close> or
  \<^verbatim>\<open>battery_charger_enable\<close> fails, the call returns that negative status, the failed
  write is the last transaction of the call, the transactions before it stay on the
  trace, and \<^verbatim>\<open>charger_enabled\<close>, like everything but the trace, is as before the call.
\<close>

theorem gating_failure_propagates:
  assumes "battery_charger_disable bus s = (r, s') \<or> battery_charger_enable bus bd s = (r, s')"
  shows "\<exists>evs. trace s' = trace s @ evs \<and>
           (\<forall>i<length evs. gating_write (evs ! i) \<and> ev_status (evs ! i) < 0 \<longrightarrow>
              r = ev_status (evs ! i) \<and> Suc i = length evs \<and>
              charger_enabled s' = charger_enabled s \<and> s' = s\<lparr>trace := trace s'\<rparr>)"
  using assms disable_failure_shape enable_failure_shape by blast

theorem gating_failure_propagates_witness:
  "battery_charger_disable (bus_failing 0x15) (init_state\<lparr>charger_enabled := True\<rparr>) =
     (- 1, init_state\<lparr>charger_enabled := True,
            trace := [WriteEv 0x09 0x12 0xE108 0, WriteEv 0x09 0x14 0 0, WriteEv 0x09 0x15 0 (- 1)]\<rparr>)
   \<and> (\<exists>evs. evs = [WriteEv 0x09 0x12 0xE108 0, WriteEv 0x09 0x14 0 0, WriteEv 0x09 0x15 0 (- 1)]
         \<and> gating_write (evs ! 2) \<and> ev_status (evs ! 2) < 0
         \<and> - 1 = ev_status (evs ! 2) \<and> Suc 2 = length evs)"
proof -
  let ?s = "init_state\<lparr>charger_enabled := True\<rparr>"
  let ?E = "[WriteEv 0x09 0x12 0xE108 0, WriteEv 0x09 0x14 0 0, WriteEv 0x09 0x15 0 (- 1)]"
  let ?s' = "init_state\<lparr>charger_enabled := True, trace := ?E\<rparr>"
  have run: "battery_charger_disable (bus_failing 0x15) ?s = (- 1, ?s')"
    by (simp add: battery_charger_disable_def smbus_write_eq init_state_def bus_failing_def
        CHARGER_ADDRESS_def charge_option_disable_def SBC_EN_LWPWR_def SBC_WDTMR_ADJ_175S_def
        SBC_PWM_FREQ_800KHZ_def SBC_IDCHC_GAIN_def)
  from gating_failure_propagates [of "bus_failing 0x15" ?s "- 1" ?s' board_example] run
  obtain evs where evs: "trace ?s' = trace ?s @ evs"
    and last: "\<forall>i<length evs. gating_write (evs ! i) \<and> ev_status (evs ! i) < 0 \<longrightarrow>
              - 1 = ev_status (evs ! i) \<and> Suc i = length evs \<and>
              charger_enabled ?s' = charger_enabled ?s \<and> ?s' = ?s\<lparr>trace := trace ?s'\<rparr>"
    by blast
  from evs have E: "evs = ?E" by (simp add: init_state_def)
  have g: "gating_write (evs ! 2) \<and> ev_status (evs ! 2) < 0"
    by (simp add: E CHARGER_ADDRESS_def)
  have "2 < length evs" by (simp add: E)
  with last g have "- 1 = ev_status (evs ! 2) \<and> Suc 2 = length evs" by blast
  with run E g show ?thesis by blast
qed

text \<open>
  C5, as stated, fails: a second call in a row can write again. On a bus that fails the
  charge-current write, \<^verbatim>\<open>battery_charger_disable\<close> called on an enabled charger returns
  the error and leaves the flag enabled, so the next call issues its writes once more.
\<close>

theorem disable_twice_counterexample:
  "trace (snd (battery_charger_disable (bus_failing 0x14)
      (snd (battery_charger_disable (bus_failing 0x14) (init_state\<lparr>charger_enabled := True\<rparr>))))) =
   trace (snd (battery_charger_disable (bus_failing 0x14) (init_state\<lparr>charger_enabled := True\<rparr>)))
     @ [WriteEv 0x09 0x12 0xE108 0, WriteEv 0x09 0x14 0 (- 1)]"
  by (simp add: battery_charger_disable_def smbus_write_eq init_state_def bus_failing_def
      CHARGER_ADDRESS_def charge_option_disable_def flag_defs)

text \<open>
  C5, amended. \<^verbatim>\<open>battery_charger_disable\<close> called with the flag disabled, and
  \<^verbatim>\<open>battery_charger_enable\<close> called with the flag enabled, issue no bus transaction and
  return 0; and after a call of either that did not return a negative status, a second
  call of the same operation issues no bus transaction and returns 0.
\<close>

theorem idempotent_after_success:
  "(\<not> charger_enabled s \<longrightarrow> battery_charger_disable bus s = (0, s)) \<and>
   (charger_enabled s \<longrightarrow> battery_charger_enable bus bd s = (0, s)) \<and>
   (battery_charger_disable bus s = (r, s1) \<and> 0 \<le> r \<longrightarrow>
      battery_charger_disable bus s1 = (0, s1)) \<and>
   (battery_charger_enable bus bd s = (r, s2) \<and> 0 \<le> r \<longrightarrow>
      battery_charger_enable bus bd s2 = (0, s2))"
proof (intro conjI impI)
  assume "\<not> charger_enabled s"
  then show "battery_charger_disable bus s = (0, s)" by (rule disable_noop)
next
  assume "charger_enabled s"
  then show "battery_charger_enable bus bd s = (0, s)" by (rule enable_noop)
next
  assume "battery_charger_disable bus s = (r, s1) \<and> 0 \<le> r"
  then have "\<not> charger_enabled s1"
    by (auto simp: battery_charger_disable_def smbus_write_eq split: if_splits)
  then show "battery_charger_disable bus s1 = (0, s1)" by (rule disable_noop)
next
  assume "battery_charger_enable bus bd s = (r, s2) \<and> 0 \<le> r"
  then have "charger_enabled s2"
    by (auto simp: battery_charger_enable_def disable_noop smbus_write_eq split: if_splits)
  then show "battery_charger_enable bus bd s2 = (0, s2)" by (rule enable_noop)
qed

theorem idempotent_after_success_witness:
  "battery_charger_disable bus_ok init_state = (0, init_state) \<and>
   battery_charger_enable bus_ok board_example (init_state\<lparr>charger_enabled := True\<rparr>) =
     (0, init_state\<lparr>charger_enabled := True\<rparr>) \<and>
   battery_charger_disable bus_ok (snd (battery_charger_disable bus_ok (init_state\<lparr>charger_enabled := True\<rparr>))) =
     (0, init_state\<lparr>trace := [WriteEv 0x09 0x12 0xE108 0, WriteEv 0x09 0x14 0 0,
                              WriteEv 0x09 0x15 0 0, WriteEv 0x09 0x3F 0 0]\<rparr>) \<and>
   battery_charger_enable bus_ok board_example (snd (battery_charger_enable bus_ok board_example init_state)) =
     (0, init_state\<lparr>charger_enabled := True,
                    trace := [WriteEv 0x09 0x14 0x0600 0, WriteEv 0x09 0x15 0x3390 0,
                              WriteEv 0x09 0x3F 0x0E00 0, WriteEv 0x09 0x12 0x8108 0]\<rparr>)"
proof -
  let ?en = "init_state\<lparr>charger_enabled := True\<rparr>"
  let ?s1 = "init_state\<lparr>trace := [WriteEv 0x09 0x12 0xE108 0, WriteEv 0x09 0x14 0 0,
                                   WriteEv 0x09 0x15 0 0, WriteEv 0x09 0x3F 0 0]\<rparr>"
  let ?s2 = "init_state\<lparr>charger_enabled := True,
                    trace := [WriteEv 0x09 0x14 0x0600 0, WriteEv 0x09 0x15 0x3390 0,
                              WriteEv 0x09 0x3F 0x0E00 0, WriteEv 0x09 0x12 0x8108 0]\<rparr>"
  have d: "battery_charger_disable bus_ok ?en = (0, ?s1)"
    by (simp add: battery_charger_disable_def smbus_write_eq init_state_def bus_ok_def
        CHARGER_ADDRESS_def charge_option_disable_def flag_defs)
  have e: "battery_charger_enable bus_ok board_example init_state = (0, ?s2)"
    by (simp add: battery_charger_enable_def battery_charger_disable_def smbus_write_eq
        init_state_def bus_ok_def board_example_def CHARGER_ADDRESS_def charge_option_enable_def
        flag_defs)
  have a1: "\<not> charger_enabled init_state" by (simp add: init_state_def)
  have a2: "charger_enabled ?en" by simp
  from idempotent_after_success [of init_state bus_ok board_example 0 init_state init_state] a1
  have c1: "battery_charger_disable bus_ok init_state = (0, init_state)" by blast
  from idempotent_after_success [of ?en bus_ok board_example 0 ?s1 ?en] a2 d
  have c2: "battery_charger_enable bus_ok board_example ?en = (0, ?en)"
    and c3: "battery_charger_disable bus_ok ?s1 = (0, ?s1)" by blast+
  from idempotent_after_success [of init_state bus_ok board_example 0 init_state ?s2] e
  have c4: "battery_charger_enable bus_ok board_example ?s2 = (0, ?s2)" by simp
  from c1 c2 c3 c4 d e show ?thesis by simp
qed

text \<open>
  C9. \<^verbatim>\<open>battery_charger_enable\<close> does not look at the status of its last write, the
  one of charge option 0 that clears the watchdog bits: when that write has been issued
  and failed, the call still returns 0 and sets \<^verbatim>\<open>charger_enabled\<close>, and nothing else
  in the program state differs from before the call.
\<close>

theorem enable_ignores_option_write_failure:
  assumes "\<not> charger_enabled s"
    and "battery_charger_enable bus bd s = (r, s')"
    and "trace s' = trace s @ evs"
    and "WriteEv a 0x12 v rf \<in> set evs"
    and "rf < 0"
  shows "r = 0 \<and> charger_enabled s' \<and> s' = s\<lparr>trace := trace s', charger_enabled := True\<rparr>
         \<and> last (trace s') = WriteEv CHARGER_ADDRESS 0x12 charge_option_enable rf"
  using assms
  by (auto simp: battery_charger_enable_def disable_noop smbus_write_eq split: if_splits)

theorem enable_ignores_option_write_failure_witness:
  "battery_charger_enable (bus_failing 0x12) board_example init_state =
     (0, init_state\<lparr>trace := [WriteEv 0x09 0x14 0x0600 0, WriteEv 0x09 0x15 0x3390 0,
                              WriteEv 0x09 0x3F 0x0E00 0, WriteEv 0x09 0x12 0x8108 (- 1)],
                    charger_enabled := True\<rparr>)"
proof -
  let ?E = "[WriteEv 0x09 0x14 0x0600 0, WriteEv 0x09 0x15 0x3390 0,
             WriteEv 0x09 0x3F 0x0E00 0, WriteEv 0x09 0x12 0x8108 (- 1)]"
  obtain r s' where run: "battery_charger_enable (bus_failing 0x12) board_example init_state = (r, s')"
    by (cases "battery_charger_enable (bus_failing 0x12) board_example init_state")
  have tr: "trace s' = trace init_state @ ?E"
    using run
    by (auto simp: battery_charger_enable_def disable_noop smbus_write_eq init_state_def
        bus_failing_def board_example_def CHARGER_ADDRESS_def charge_option_enable_def
        SBC_EN_LWPWR_def SBC_PWM_FREQ_800KHZ_def SBC_IDCHC_GAIN_def)
  have "r = 0 \<and> charger_enabled s' \<and> s' = init_state\<lparr>trace := trace s', charger_enabled := True\<rparr>
         \<and> last (trace s') = WriteEv CHARGER_ADDRESS 0x12 charge_option_enable (- 1)"
    by (rule enable_ignores_option_write_failure
          [where a = "0x09" and v = "0x8108" and rf = "- 1", OF _ run tr])
       (simp_all add: init_state_def)
  with run tr show ?thesis by (simp add: init_state_def)
qed

lemma enable_own_writes:
  assumes "battery_charger_enable bus bd s = (r, s')"
  shows "\<exists>evs. trace s' = trace s @ evs \<and>
           map write_request evs =
             take (length evs)
               [Some (CHARGER_ADDRESS, 0x14, CHARGER_CHARGE_CURRENT bd),
                Some (CHARGER_ADDRESS, 0x15, CHARGER_CHARGE_VOLTAGE bd),
                Some (CHARGER_ADDRESS, 0x3F, CHARGER_INPUT_CURRENT bd),
                Some (CHARGER_ADDRESS, 0x12, charge_option_enable)] \<and>
           (\<forall>ev\<in>set evs. \<not> watchdog_armed_write ev)"
proof (cases "charger_enabled s")
  case True
  with assms have "s' = s" by (simp add: battery_charger_enable_def)
  then show ?thesis by (intro exI [of _ "[]"]) simp
next
  case False
  with assms show ?thesis
    by (auto simp: battery_charger_enable_def disable_noop smbus_write_eq
        charge_option_enable_unarmed split: if_splits)
qed

lemma enable_armed:
  "filter watchdog_armed_write (trace (snd (battery_charger_enable bus bd s))) =
     filter watchdog_armed_write (trace s)"
proof -
  obtain r s' where e: "battery_charger_enable bus bd s = (r, s')"
    by (cases "battery_charger_enable bus bd s")
  from enable_own_writes [OF e] obtain evs where
    "trace s' = trace s @ evs" "\<forall>ev\<in>set evs. \<not> watchdog_armed_write ev" by blast
  then show ?thesis by (simp add: e)
qed

lemma step_armed:
  assumes "\<not> charger_enabled s"
  shows "filter watchdog_armed_write (trace (step bus bd c s)) =
           filter watchdog_armed_write (trace s)"
  using assms
  by (cases c)
     (simp_all add: battery_charger_configure_def Let_def enable_armed disable_noop
        update_should_charge_frame event_armed battery_set_start_threshold_def
        battery_set_stop_threshold_def split: prod.splits)

lemma run_never_enabled_armed:
  "(\<forall>k\<le>length cs. \<not> charger_enabled (run bus bd (take k cs) init_state)) \<Longrightarrow>
     filter watchdog_armed_write (trace (run bus bd cs init_state)) = []"
proof (induction cs rule: rev_induct)
  case Nil
  then show ?case by (simp add: run_def init_state_def)
next
  case (snoc c cs)
  have pre: "\<forall>k\<le>length cs. \<not> charger_enabled (run bus bd (take k cs) init_state)"
  proof (intro allI impI)
    fix k assume k: "k \<le> length cs"
    then have "k \<le> length (cs @ [c])" by simp
    with snoc.prems have "\<not> charger_enabled (run bus bd (take k (cs @ [c])) init_state)" by blast
    with k show "\<not> charger_enabled (run bus bd (take k cs) init_state)" by simp
  qed
  from pre have "\<not> charger_enabled (run bus bd (take (length cs) cs) init_state)" by blast
  then have off: "\<not> charger_enabled (run bus bd cs init_state)" by simp
  from snoc.IH [OF pre] step_armed [OF off] show ?case by (simp add: run_snoc)
qed

text \<open>
  C10. A call of \<^verbatim>\<open>battery_charger_enable\<close> that passes its guard runs with the flag
  disabled, and there \<^verbatim>\<open>battery_charger_disable\<close> issues no write and returns 0. So
  the writes of any call of enable are an initial part of its own four (the three limits
  and the option value without watchdog bits), none of them arming the watchdog. The flag
  starts disabled, and as long as it has stayed disabled after every call made so far,
  whatever the calls were, no watchdog-armed option write is on the trace.
\<close>

theorem enable_never_forces_baseline:
  "(\<not> charger_enabled s \<longrightarrow> battery_charger_disable bus s = (0, s)) \<and>
   (battery_charger_enable bus bd s = (r, s') \<longrightarrow>
      (\<exists>evs. trace s' = trace s @ evs \<and>
         map write_request evs =
           take (length evs)
             [Some (CHARGER_ADDRESS, 0x14, CHARGER_CHARGE_CURRENT bd),
              Some (CHARGER_ADDRESS, 0x15, CHARGER_CHARGE_VOLTAGE bd),
              Some (CHARGER_ADDRESS, 0x3F, CHARGER_INPUT_CURRENT bd),
              Some (CHARGER_ADDRESS, 0x12, charge_option_enable)] \<and>
         (\<forall>ev\<in>set evs. \<not> watchdog_armed_write ev))) \<and>
   \<not> charger_enabled init_state \<and>
   ((\<forall>k\<le>length cs. \<not> charger_enabled (run bus bd (take k cs) init_state)) \<longrightarrow>
      (\<forall>ev\<in>set (trace (run bus bd cs init_state)). \<not> watchdog_armed_write ev))"
proof (intro conjI impI)
  assume "\<not> charger_enabled s"
  then show "battery_charger_disable bus s = (0, s)" by (rule disable_noop)
next
  assume "battery_charger_enable bus bd s = (r, s')"
  then show "\<exists>evs. trace s' = trace s @ evs \<and>
         map write_request evs =
           take (length evs)
             [Some (CHARGER_ADDRESS, 0x14, CHARGER_CHARGE_CURRENT bd),
              Some (CHARGER_ADDRESS, 0x15, CHARGER_CHARGE_VOLTAGE bd),
              Some (CHARGER_ADDRESS, 0x3F, CHARGER_INPUT_CURRENT bd),
              Some (CHARGER_ADDRESS, 0x12, charge_option_enable)] \<and>
         (\<forall>ev\<in>set evs. \<not> watchdog_armed_write ev)"
    by (rule enable_own_writes)
next
  show "\<not> charger_enabled init_state" by (simp add: init_state_def)
next
  assume "\<forall>k\<le>length cs. \<not> charger_enabled (run bus bd (take k cs) init_state)"
  then have "filter watchdog_armed_write (trace (run bus bd cs init_state)) = []"
    by (rule run_never_enabled_armed)
  then show "\<forall>ev\<in>set (trace (run bus bd cs init_state)). \<not> watchdog_armed_write ev"
    by (simp add: filter_empty_conv)
qed

theorem enable_never_forces_baseline_witness:
  "battery_charger_disable (bus_failing 0x14) init_state = (0, init_state) \<and>
   battery_charger_enable (bus_failing 0x14) board_example init_state =
     (- 1, init_state\<lparr>trace := [WriteEv 0x09 0x14 0x0600 (- 1)]\<rparr>) \<and>
   trace (run (bus_failing 0x14) board_example [Call_disable, Call_enable] init_state) =
     [WriteEv 0x09 0x14 0x0600 (- 1)] \<and>
   \<not> watchdog_armed_write (WriteEv 0x09 0x14 0x0600 (- 1))"
proof -
  let ?b = "bus_failing 0x14"
  let ?cs = "[Call_disable, Call_enable]"
  let ?s' = "init_state\<lparr>trace := [WriteEv 0x09 0x14 0x0600 (- 1)]\<rparr>"
  have off: "\<not> charger_enabled init_state" by (simp add: init_state_def)
  have d: "battery_charger_disable ?b init_state = (0, init_state)"
    by (simp add: battery_charger_disable_def off)
  have e: "battery_charger_enable ?b board_example init_state = (- 1, ?s')"
    by (simp add: battery_charger_enable_def battery_charger_disable_def smbus_write_eq
        bus_failing_def board_example_def CHARGER_ADDRESS_def init_state_def)
  have r0: "run ?b board_example [] init_state = init_state"
    by (simp add: run_def)
  have r1: "run ?b board_example [Call_disable] init_state = init_state"
    by (simp add: run_def d)
  have r2: "run ?b board_example ?cs init_state = ?s'"
    by (simp add: run_def d e)
  have never: "\<forall>k\<le>length ?cs. \<not> charger_enabled (run ?b board_example (take k ?cs) init_state)"
  proof (intro allI impI)
    fix k :: nat
    assume "k \<le> length ?cs"
    then have "k = 0 \<or> k = 1 \<or> k = 2" by auto
    then show "\<not> charger_enabled (run ?b board_example (take k ?cs) init_state)"
      using r0 r1 r2 off by (auto simp: numeral_2_eq_2)
  qed
  from enable_never_forces_baseline [of init_state ?b board_example "- 1" ?s' ?cs] off e never
  have c1: "battery_charger_disable ?b init_state = (0, init_state)"
    and c3: "\<forall>ev\<in>set (trace (run ?b board_example ?cs init_state)). \<not> watchdog_armed_write ev"
    by blast+
  from c3 r2 have "\<not> watchdog_armed_write (WriteEv 0x09 0x14 0x0600 (- 1))" by simp
  with c1 e r2 show ?thesis by simp
qed

subsection \<open>Telemetry\<close>

lemma command_fields:
  "command bus battery_temp battery_temp_update V s =
     (let a = read_result bus (trace s) BATTERY_ADDRESS V (battery_temp s)
      in s\<lparr>battery_temp := fresh a, trace := trace s @ [ReadEv BATTERY_ADDRESS V (fst a) (snd a)]\<rparr>)"
  "command bus battery_voltage battery_voltage_update V s =
     (let a = read_result bus (trace s) BATTERY_ADDRESS V (battery_voltage s)
      in s\<lparr>battery_voltage := fresh a, trace := trace s @ [ReadEv BATTERY_ADDRESS V (fst a) (snd a)]\<rparr>)"
  "command bus battery_current battery_current_update V s =
     (let a = read_result bus (trace s) BATTERY_ADDRESS V (battery_current s)
      in s\<lparr>battery_current := fresh a, trace := trace s @ [ReadEv BATTERY_ADDRESS V (fst a) (snd a)]\<rparr>)"
  "command bus battery_charge battery_charge_update V s =
     (let a = read_result bus (trace s) BATTERY_ADDRESS V (battery_charge s)
      in s\<lparr>battery_charge := fresh a, trace := trace s @ [ReadEv BATTERY_ADDRESS V (fst a) (snd a)]\<rparr>)"
  "command bus battery_remaining_capacity battery_remaining_capacity_update V s =
     (let a = read_result bus (trace s) BATTERY_ADDRESS V (battery_remaining_capacity s)
      in s\<lparr>battery_remaining_capacity := fresh a, trace := trace s @ [ReadEv BATTERY_ADDRESS V (fst a) (snd a)]\<rparr>)"
  "command bus battery_full_capacity battery_full_capacity_update V s =
     (let a = read_result bus (trace s) BATTERY_ADDRESS V (battery_full_capacity s)
      in s\<lparr>battery_full_capacity := fresh a, trace := trace s @ [ReadEv BATTERY_ADDRESS V (fst a) (snd a)]\<rparr>)"
  "command bus battery_status battery_status_update V s =
     (let a = read_result bus (trace s) BATTERY_ADDRESS V (battery_status s)
      in s\<lparr>battery_status := fresh a, trace := trace s @ [ReadEv BATTERY_ADDRESS V (fst a) (snd a)]\<rparr>)"
  "command bus battery_design_capacity battery_design_capacity_update V s =
     (let a = read_result bus (trace s) BATTERY_ADDRESS V (battery_design_capacity s)
      in s\<lparr>battery_design_capacity := fresh a, trace := trace s @ [ReadEv BATTERY_ADDRESS V (fst a) (snd a)]\<rparr>)"
  "command bus battery_design_voltage battery_design_voltage_update V s =
     (let a = read_result bus (trace s) BATTERY_ADDRESS V (battery_design_voltage s)
      in s\<lparr>battery_design_voltage := fresh a, trace := trace s @ [ReadEv BATTERY_ADDRESS V (fst a) (snd a)]\<rparr>)"
  by (simp_all add: command_def smbus_read_def fresh_def Let_def split: prod.splits)

text \<open>
  C7. One call of \<^verbatim>\<open>battery_event\<close> issues exactly nine bus reads, one per telemetry
  field and in the order of the fields, each at the battery address and the field's own
  command code. Each field ends as 0 when its own read returned a negative status and as
  the word that read stored otherwise, independently of the other eight; nothing else
  in the state changes, and the function, being total, always returns.
\<close>

theorem battery_event_reads:
  "battery_event bus s =
     (let t0 = trace s;
          a1 = read_result bus t0 0x0B 0x08 (battery_temp s);
          t1 = t0 @ [ReadEv 0x0B 0x08 (fst a1) (snd a1)];
          a2 = read_result bus t1 0x0B 0x09 (battery_voltage s);
          t2 = t1 @ [ReadEv 0x0B 0x09 (fst a2) (snd a2)];
          a3 = read_result bus t2 0x0B 0x0A (battery_current s);
          t3 = t2 @ [ReadEv 0x0B 0x0A (fst a3) (snd a3)];
          a4 = read_result bus t3 0x0B 0x0D (battery_charge s);
          t4 = t3 @ [ReadEv 0x0B 0x0D (fst a4) (snd a4)];
          a5 = read_result bus t4 0x0B 0x0F (battery_remaining_capacity s);
          t5 = t4 @ [ReadEv 0x0B 0x0F (fst a5) (snd a5)];
          a6 = read_result bus t5 0x0B 0x10 (battery_full_capacity s);
          t6 = t5 @ [ReadEv 0x0B 0x10 (fst a6) (snd a6)];
          a7 = read_result bus t6 0x0B 0x16 (battery_status s);
          t7 = t6 @ [ReadEv 0x0B 0x16 (fst a7) (snd a7)];
          a8 = read_result bus t7 0x0B 0x18 (battery_design_capacity s);
          t8 = t7 @ [ReadEv 0x0B 0x18 (fst a8) (snd a8)];
          a9 = read_result bus t8 0x0B 0x19 (battery_design_voltage s);
          t9 = t8 @ [ReadEv 0x0B 0x19 (fst a9) (snd a9)]
      in s\<lparr>battery_temp := fresh a1,
            battery_voltage := fresh a2,
            battery_current := fresh a3,
            battery_charge := fresh a4,
            battery_remaining_capacity := fresh a5,
            battery_full_capacity := fresh a6,
            battery_status := fresh a7,
            battery_design_capacity := fresh a8,
            battery_design_voltage := fresh a9,
            trace := t9\<rparr>)"
proof -
  define t0 where "t0 = trace s"
  define a1 where "a1 = read_result bus t0 0x0B 0x08 (battery_temp s)"
  define t1 where "t1 = t0 @ [ReadEv 0x0B 0x08 (fst a1) (snd a1)]"
  define a2 where "a2 = read_result bus t1 0x0B 0x09 (battery_voltage s)"
  define t2 where "t2 = t1 @ [ReadEv 0x0B 0x09 (fst a2) (snd a2)]"
  define a3 where "a3 = read_result bus t2 0x0B 0x0A (battery_current s)"
  define t3 where "t3 = t2 @ [ReadEv 0x0B 0x0A (fst a3) (snd a3)]"
  define a4 where "a4 = read_result bus t3 0x0B 0x0D (battery_charge s)"
  define t4 where "t4 = t3 @ [ReadEv 0x0B 0x0D (fst a4) (snd a4)]"
  define a5 where "a5 = read_result bus t4 0x0B 0x0F (battery_remaining_capacity s)"
  define t5 where "t5 = t4 @ [ReadEv 0x0B 0x0F (fst a5) (snd a5)]"
  define a6 where "a6 = read_result bus t5 0x0B 0x10 (battery_full_capacity s)"
  define t6 where "t6 = t5 @ [ReadEv 0x0B 0x10 (fst a6) (snd a6)]"
  define a7 where "a7 = read_result bus t6 0x0B 0x16 (battery_status s)"
  define t7 where "t7 = t6 @ [ReadEv 0x0B 0x16 (fst a7) (snd a7)]"
  define a8 where "a8 = read_result bus t7 0x0B 0x18 (battery_design_capacity s)"
  define t8 where "t8 = t7 @ [ReadEv 0x0B 0x18 (fst a8) (snd a8)]"
  define a9 where "a9 = read_result bus t8 0x0B 0x19 (battery_design_voltage s)"
  define t9 where "t9 = t8 @ [ReadEv 0x0B 0x19 (fst a9) (snd a9)]"
  define s1 where "s1 = command bus battery_temp battery_temp_update 0x08 s"
  define s2 where "s2 = command bus battery_voltage battery_voltage_update 0x09 s1"
  define s3 where "s3 = command bus battery_current battery_current_update 0x0A s2"
  define s4 where "s4 = command bus battery_charge battery_charge_update 0x0D s3"
  define s5 where "s5 = command bus battery_remaining_capacity battery_remaining_capacity_update 0x0F s4"
  define s6 where "s6 = command bus battery_full_capacity battery_full_capacity_update 0x10 s5"
  define s7 where "s7 = command bus battery_status battery_status_update 0x16 s6"
  define s8 where "s8 = command bus battery_design_capacity battery_design_capacity_update 0x18 s7"
  define s9 where "s9 = command bus battery_design_voltage battery_design_voltage_update 0x19 s8"
  have e1: "s1 = s\<lparr>battery_temp := fresh a1, trace := t1\<rparr>"
    by (simp add: s1_def command_fields BATTERY_ADDRESS_def Let_def a1_def t1_def t0_def)
  have e2: "s2 = s\<lparr>battery_temp := fresh a1, battery_voltage := fresh a2, trace := t2\<rparr>"
    by (simp add: s2_def e1 command_fields BATTERY_ADDRESS_def Let_def a2_def t2_def)
  have e3: "s3 = s\<lparr>battery_temp := fresh a1, battery_voltage := fresh a2,
      battery_current := fresh a3, trace := t3\<rparr>"
    by (simp add: s3_def e2 command_fields BATTERY_ADDRESS_def Let_def a3_def t3_def)
  have e4: "s4 = s\<lparr>battery_temp := fresh a1, battery_voltage := fresh a2,
      battery_current := fresh a3, battery_charge := fresh a4, trace := t4\<rparr>"
    by (simp add: s4_def e3 command_fields BATTERY_ADDRESS_def Let_def a4_def t4_def)
  have e5: "s5 = s\<lparr>battery_temp := fresh a1, battery_voltage := fresh a2,
      battery_current := fresh a3, battery_charge := fresh a4,
      battery_remaining_capacity := fresh a5, trace := t5\<rparr>"
    by (simp add: s5_def e4 command_fields BATTERY_ADDRESS_def Let_def a5_def t5_def)
  have e6: "s6 = s\<lparr>battery_temp := fresh a1, battery_voltage := fresh a2,
      battery_current := fresh a3, battery_charge := fresh a4,
      battery_remaining_capacity := fresh a5, battery_full_capacity := fresh a6, trace := t6\<rparr>"
    by (simp add: s6_def e5 command_fields BATTERY_ADDRESS_def Let_def a6_def t6_def)
  have e7: "s7 = s\<lparr>battery_temp := fresh a1, battery_voltage := fresh a2,
      battery_current := fresh a3, battery_charge := fresh a4,
      battery_remaining_capacity := fresh a5, battery_full_capacity := fresh a6,
      battery_status := fresh a7, trace := t7\<rparr>"
    by (simp add: s7_def e6 command_fields BATTERY_ADDRESS_def Let_def a7_def t7_def)
  have e8: "s8 = s\<lparr>battery_temp := fresh a1, battery_voltage := fresh a2,
      battery_current := fresh a3, battery_charge := fresh a4,
      battery_remaining_capacity := fresh a5, battery_full_capacity := fresh a6,
      battery_status := fresh a7, battery_design_capacity := fresh a8, trace := t8\<rparr>"
    by (simp add: s8_def e7 command_fields BATTERY_ADDRESS_def Let_def a8_def t8_def)
  have e9: "s9 = s\<lparr>battery_temp := fresh a1, battery_voltage := fresh a2,
      battery_current := fresh a3, battery_charge := fresh a4,
      battery_remaining_capacity := fresh a5, battery_full_capacity := fresh a6,
      battery_status := fresh a7, battery_design_capacity := fresh a8,
      battery_design_voltage := fresh a9, trace := t9\<rparr>"
    by (simp add: s9_def e8 command_fields BATTERY_ADDRESS_def Let_def a9_def t9_def)
  have ev: "battery_event bus s = s9"
    unfolding battery_event_def Let_def s9_def s8_def s7_def s6_def s5_def s4_def s3_def s2_def
      s1_def ..
  note final = ev [unfolded e9 t9_def a9_def t8_def a8_def t7_def a7_def t6_def a6_def t5_def
      a5_def t4_def a4_def t3_def a3_def t2_def a2_def t1_def a1_def t0_def]
  show ?thesis
    unfolding Let_def by (rule final)
qed

theorem battery_event_reads_witness:
  "battery_event (bus_failing 0x0D) init_state =
     init_state\<lparr>battery_temp := 0x108, battery_voltage := 0x109, battery_current := 0x10A,
       battery_charge := 0, battery_remaining_capacity := 0x10F,
       battery_full_capacity := 0x110, battery_status := 0x116,
       battery_design_capacity := 0x118, battery_design_voltage := 0x119,
       trace := [ReadEv 0x0B 0x08 0 0x108, ReadEv 0x0B 0x09 0 0x109, ReadEv 0x0B 0x0A 0 0x10A,
                 ReadEv 0x0B 0x0D (- 1) 0, ReadEv 0x0B 0x0F 0 0x10F, ReadEv 0x0B 0x10 0 0x110,
                 ReadEv 0x0B 0x16 0 0x116, ReadEv 0x0B 0x18 0 0x118, ReadEv 0x0B 0x19 0 0x119]\<rparr>"
  using battery_event_reads [of "bus_failing 0x0D" init_state]
  by (simp add: Let_def bus_failing_def init_state_def fresh_def)

subsection \<open>Threshold store\<close>

lemma step_thresholds_ok:
  "thresholds_ok s \<Longrightarrow> thresholds_ok (step bus bd c s)"
  by (cases c)
     (auto simp: thresholds_ok_def configure_thresholds enable_thresholds disable_thresholds
        event_thresholds battery_set_start_threshold_def battery_set_stop_threshold_def
        config_set_value_def)

lemma run_thresholds_ok:
  "thresholds_ok s \<Longrightarrow> thresholds_ok (run bus bd calls s)"
  unfolding run_def
  by (induction calls arbitrary: s) (simp_all add: step_thresholds_ok)

lemma init_thresholds_ok: "thresholds_ok init_state"
  by (simp add: thresholds_ok_def init_state_def battery_start_threshold_init_def
      battery_stop_threshold_init_def)

text \<open>
  C8. The defaults are 0 (start) and 100 (stop). In every state reached from start-up by
  any calls, the getters return values inside [0, 99] and [1, 100];
  \<^verbatim>\<open>battery_set_start_threshold\<close> returns false and changes nothing for a value outside
  [0, 99], and \<^verbatim>\<open>battery_set_stop_threshold\<close> for a value outside [1, 100]; a value
  inside the bounds is accepted and is what the getter returns afterwards.
\<close>

theorem threshold_store:
  "battery_get_start_threshold init_state = 0 \<and>
   battery_get_stop_threshold init_state = 100 \<and>
   (let s = run bus bd calls init_state
    in 0 \<le> battery_get_start_threshold s \<and> battery_get_start_threshold s \<le> 99 \<and>
       1 \<le> battery_get_stop_threshold s \<and> battery_get_stop_threshold s \<le> 100 \<and>
       (v < 0 \<or> 99 < v \<longrightarrow> battery_set_start_threshold v s = (False, s)) \<and>
       (v < 1 \<or> 100 < v \<longrightarrow> battery_set_stop_threshold v s = (False, s)) \<and>
       (0 \<le> v \<and> v \<le> 99 \<longrightarrow>
          fst (battery_set_start_threshold v s) \<and>
          battery_get_start_threshold (snd (battery_set_start_threshold v s)) = v) \<and>
       (1 \<le> v \<and> v \<le> 100 \<longrightarrow>
          fst (battery_set_stop_threshold v s) \<and>
          battery_get_stop_threshold (snd (battery_set_stop_threshold v s)) = v))"
proof -
  have ok: "thresholds_ok (run bus bd calls init_state)"
    by (rule run_thresholds_ok [OF init_thresholds_ok])
  have i: "battery_get_start_threshold init_state = 0 \<and> battery_get_stop_threshold init_state = 100"
    by (simp add: battery_get_start_threshold_def battery_get_stop_threshold_def
        config_get_value_def init_state_def battery_start_threshold_init_def
        battery_stop_threshold_init_def)
  from ok i show ?thesis
    by (auto simp: Let_def thresholds_ok_def battery_get_start_threshold_def
        battery_get_stop_threshold_def config_get_value_def battery_set_start_threshold_def
        battery_set_stop_threshold_def config_set_value_def)
qed

theorem threshold_store_witness:
  "battery_set_start_threshold 150
      (run bus_ok board_example [Call_set_start 40, Call_set_stop 80] init_state) =
     (False, run bus_ok board_example [Call_set_start 40, Call_set_stop 80] init_state) \<and>
   battery_set_stop_threshold 0
      (run bus_ok board_example [Call_set_start 40, Call_set_stop 80] init_state) =
     (False, run bus_ok board_example [Call_set_start 40, Call_set_stop 80] init_state) \<and>
   fst (battery_set_start_threshold 50
      (run bus_ok board_example [Call_set_start 40, Call_set_stop 80] init_state)) \<and>
   battery_get_start_threshold (snd (battery_set_start_threshold 50
      (run bus_ok board_example [Call_set_start 40, Call_set_stop 80] init_state))) = 50 \<and>
   fst (battery_set_stop_threshold 50
      (run bus_ok board_example [Call_set_start 40, Call_set_stop 80] init_state)) \<and>
   battery_get_stop_threshold (snd (battery_set_stop_threshold 50
      (run bus_ok board_example [Call_set_start 40, Call_set_stop 80] init_state))) = 50"
  using threshold_store [of bus_ok board_example "[Call_set_start 40, Call_set_stop 80]" 150]
    threshold_store [of bus_ok board_example "[Call_set_start 40, Call_set_stop 80]" 0]
    threshold_store [of bus_ok board_example "[Call_set_start 40, Call_set_stop 80]" 50]
  by (simp add: Let_def)

end
